theory Spec2Isabelle
  imports Complex_Main
begin

section \<open>Values read from the worksheet\<close>

text \<open>
  The program is \<^verbatim>\<open>src/app.py\<close>: \<^verbatim>\<open>process_excel\<close> reads a worksheet with
  \<^verbatim>\<open>pd.read_excel(file, header=9, usecols="B:G")\<close>, drops the rows that miss one of four
  columns, derives five output columns and returns them; \<^verbatim>\<open>main\<close> shows the result or
  the exception.

  A Python \<^verbatim>\<open>str\<close> is modelled as a \<^typ>\<open>string\<close> whose characters are the code
  points U+0000 to U+00FF (each \<^typ>\<open>char\<close> is the code point of the same number), so the
  character tables below are Python's, restricted to that range. Text with code points
  above U+00FF is outside the model.
\<close>

text \<open>
  A float64 other than NaN: sign bit, and either the magnitude \<open>m * 2 ^ e\<close> or infinity.
  Negative zero is \<open>Finite True 0 e\<close>.
\<close>

datatype float64 = Finite bool nat int | Infinity bool

text \<open>
  The calendar date of a \<^verbatim>\<open>pd.Timestamp\<close> or a \<^verbatim>\<open>datetime.datetime\<close>: the three fields
  that \<^verbatim>\<open>strftime("%Y-%m-%d")\<close> reads.
\<close>

record timestamp =
  year :: nat
  month :: nat
  day :: nat

text \<open>
  One cell of the frame \<^verbatim>\<open>read_excel\<close> returns, by what the program can observe of it:
  \<^item> \<open>NaN\<close>: a blank cell, the one value on which \<^verbatim>\<open>pd.isna\<close> holds;
  \<^item> \<open>Str s\<close>: a Python \<^verbatim>\<open>str\<close>;
  \<^item> \<open>Num v s\<close>: an int, float or bool, with its value \<open>v\<close> as a float and its
    \<^verbatim>\<open>str()\<close> text \<open>s\<close> (\<^verbatim>\<open>"48071"\<close> for the int, \<^verbatim>\<open>"48071.0"\<close> for the float);
  \<^item> \<open>Timestamp t s\<close>: a \<^verbatim>\<open>pd.Timestamp\<close> with its \<^verbatim>\<open>str()\<close> text \<open>s\<close>;
  \<^item> \<open>Datetime t s\<close>: a \<^verbatim>\<open>datetime.datetime\<close> that is no \<^verbatim>\<open>pd.Timestamp\<close>, with its
    \<^verbatim>\<open>str()\<close> text \<open>s\<close>: a date cell of a column that pandas left with dtype object,
    as it does where the column mixes dates and text;
  \<^item> \<open>Obj s\<close>: a \<^verbatim>\<open>datetime.time\<close> object of such a column, with its \<^verbatim>\<open>str()\<close> text
    \<open>s\<close>.
  The text of a \<open>Num\<close>, \<open>Timestamp\<close>, \<open>Datetime\<close> or \<open>Obj\<close> is not tied to its value
  here: the model admits every pair, the real ones among them.
\<close>

datatype cell =
    NaN
  | Str string
  | Num float64 string
  | Timestamp timestamp string
  | Datetime timestamp string
  | Obj string

text \<open>Exceptions, as values. \<open>ReadError\<close> is whatever \<^verbatim>\<open>pd.read_excel\<close> raised.\<close>

datatype error =
    ReadError string
  | KeyError "string list"
  | TypeError
  | ValueError

fun isna :: "cell \<Rightarrow> bool" where
  "isna NaN = True"
| "isna _ = False"

fun py_str :: "cell \<Rightarrow> string" where
  "py_str NaN = ''nan''"
| "py_str (Str s) = s"
| "py_str (Num v s) = s"
| "py_str (Timestamp t s) = s"
| "py_str (Datetime t s) = s"
| "py_str (Obj s) = s"

section \<open>Strings\<close>

text \<open>\<^verbatim>\<open>str.isspace\<close> on one character: U+0009..U+000D, U+001C..U+0020, U+0085, U+00A0.\<close>

definition isspace :: "char \<Rightarrow> bool" where
  "isspace c =
     (let n = (of_char c :: nat)
      in (9 \<le> n \<and> n \<le> 13) \<or> (28 \<le> n \<and> n \<le> 32) \<or> n = 133 \<or> n = 160)"

text \<open>\<^verbatim>\<open>str.strip()\<close>: whitespace removed at both ends.\<close>

definition strip :: "string \<Rightarrow> string" where
  "strip s = rev (dropWhile isspace (rev (dropWhile isspace s)))"

text \<open>The characters \<^verbatim>\<open>0\<close> to \<^verbatim>\<open>9\<close>: the ones \<^verbatim>\<open>int()\<close> reads as decimal digits.\<close>

definition isdecimal_char :: "char \<Rightarrow> bool" where
  "isdecimal_char c = (let n = (of_char c :: nat) in 48 \<le> n \<and> n \<le> 57)"

text \<open>
  \<^verbatim>\<open>str.isdigit\<close> on one character: the decimal digits and the characters of Unicode
  numeric type Digit, here the superscripts U+00B2, U+00B3 and U+00B9.
\<close>

definition isdigit_char :: "char \<Rightarrow> bool" where
  "isdigit_char c =
     (let n = (of_char c :: nat)
      in (48 \<le> n \<and> n \<le> 57) \<or> n = 178 \<or> n = 179 \<or> n = 185)"

definition isdigit :: "string \<Rightarrow> bool" where
  "isdigit s = (s \<noteq> [] \<and> list_all isdigit_char s)"

definition digit_val :: "char \<Rightarrow> nat" where
  "digit_val c = of_char c - 48"

definition digit_char :: "nat \<Rightarrow> char" where
  "digit_char d = char_of (48 + d)"

definition digits_value :: "string \<Rightarrow> nat" where
  "digits_value s = foldl (\<lambda>a c. 10 * a + digit_val c) 0 s"

text \<open>
  \<^verbatim>\<open>int(s)\<close> for a string of digit characters (the program calls it on nothing else).
  It raises ValueError on a character that is not a decimal digit, and on more than
  \<open>max_digits\<close> digits when the interpreter limits integer string conversion
  (\<^verbatim>\<open>sys.get_int_max_str_digits()\<close>, 4300 by default since Python 3.11, 0 for no limit;
  CPython checks it above 640 digits only).
\<close>

definition py_int :: "nat \<Rightarrow> string \<Rightarrow> error + nat" where
  "py_int max_digits s =
     (if s = [] \<or> \<not> list_all isdecimal_char s then Inl ValueError
      else if 640 < length s \<and> 0 < max_digits \<and> max_digits < length s then Inl ValueError
      else Inr (digits_value s))"

text \<open>\<^verbatim>\<open>str(n)\<close> for a non-negative int.\<close>

fun str_nat :: "nat \<Rightarrow> string" where
  "str_nat n = (if n < 10 then [digit_char n] else str_nat (n div 10) @ [digit_char (n mod 10)])"

declare str_nat.simps [simp del]

section \<open>The five conversions\<close>

text \<open>
  Lines 31-36, the lambda of \<open>Debtor Reference\<close>, on the row's Customer Name and Card ID.
\<close>

definition debtor_reference :: "cell \<Rightarrow> cell \<Rightarrow> cell" where
  "debtor_reference customer_name card_id =
     (if strip (py_str card_id) = ''*None'' then customer_name else card_id)"

text \<open>\<^verbatim>\<open>x < 0\<close> on a float: negative zero is not below zero.\<close>

fun float_neg :: "float64 \<Rightarrow> bool" where
  "float_neg (Finite s m e) = (s \<and> m \<noteq> 0)"
| "float_neg (Infinity s) = s"

text \<open>
  Line 39, the lambda of \<open>Transaction Type\<close>. \<^verbatim>\<open>nan < 0\<close> is False; comparing a str, a
  Timestamp, a datetime or a time with 0 raises TypeError.
\<close>

fun transaction_type :: "cell \<Rightarrow> error + string" where
  "transaction_type NaN = Inr ''INV''"
| "transaction_type (Num v s) = Inr (if float_neg v then ''CRD'' else ''INV'')"
| "transaction_type (Str s) = Inl TypeError"
| "transaction_type (Timestamp t s) = Inl TypeError"
| "transaction_type (Datetime t s) = Inl TypeError"
| "transaction_type (Obj s) = Inl TypeError"

text \<open>Lines 43-52.\<close>

definition convert_invoice :: "nat \<Rightarrow> cell \<Rightarrow> error + string" where
  "convert_invoice max_digits invoice =
     (if isna invoice then Inr ''''
      else
        let invoice_str = strip (py_str invoice)
        in if isdigit invoice_str
           then (case py_int max_digits invoice_str of
                   Inl e \<Rightarrow> Inl e
                 | Inr n \<Rightarrow> Inr (str_nat n))
           else Inr invoice_str)"

text \<open>A number in at least \<open>w\<close> digits, padded with zeros on the left.\<close>

definition zero_pad :: "nat \<Rightarrow> nat \<Rightarrow> string" where
  "zero_pad w n = replicate (w - length (str_nat n)) CHR ''0'' @ str_nat n"

text \<open>
  \<^verbatim>\<open>val.strftime("%Y-%m-%d")\<close>: \<^verbatim>\<open>%Y\<close> is the year in decimal with no padding, so a
  year below 1000 has fewer than four digits (\<^verbatim>\<open>999-02-03\<close>); \<^verbatim>\<open>%m\<close> and \<^verbatim>\<open>%d\<close> are
  padded to two digits.
\<close>

definition strftime_ymd :: "timestamp \<Rightarrow> string" where
  "strftime_ymd t = str_nat (year t) @ ''-'' @ zero_pad 2 (month t) @ ''-'' @ zero_pad 2 (day t)"

text \<open>
  Lines 57-62. The test of line 60 holds of a \<^verbatim>\<open>pd.Timestamp\<close> only: a
  \<^verbatim>\<open>datetime.datetime\<close> falls through to \<^verbatim>\<open>str(val)\<close>.
\<close>

fun convert_date :: "cell \<Rightarrow> string" where
  "convert_date NaN = ''''"
| "convert_date (Timestamp t s) = strftime_ymd t"
| "convert_date val = py_str val"

text \<open>\<open>a / d\<close> rounded to the nearest integer, ties to the even one (\<open>0 < d\<close>).\<close>

definition round_half_even :: "nat \<Rightarrow> nat \<Rightarrow> nat" where
  "round_half_even a d =
     (let q = a div d; r = a mod d
      in if d < 2 * r \<or> (2 * r = d \<and> odd q) then q + 1 else q)"

text \<open>The magnitude \<open>m * 2 ^ e\<close> in hundredths, correctly rounded.\<close>

definition hundredths :: "nat \<Rightarrow> int \<Rightarrow> nat" where
  "hundredths m e =
     (if 0 \<le> e then m * 100 * 2 ^ nat e else round_half_even (m * 100) (2 ^ nat (- e)))"

text \<open>
  \<^verbatim>\<open>f"{x:.2f}"\<close> on a float: the exact binary value rounded to two decimals (ties to
  even), with the sign of the sign bit, so a small negative number gives \<^verbatim>\<open>-0.00\<close>.
\<close>

fun format_2f :: "float64 \<Rightarrow> string" where
  "format_2f (Finite s m e) =
     (let n = hundredths m e
      in (if s then ''-'' else '''') @ str_nat (n div 100) @ ''.''
         @ [digit_char (n mod 100 div 10), digit_char (n mod 10)])"
| "format_2f (Infinity s) = (if s then ''-inf'' else ''inf'')"

text \<open>
  Line 67, the lambda of \<open>Document Balance\<close>. A str has no format code \<^verbatim>\<open>f\<close>
  (ValueError); a Timestamp, datetime or time formats through \<^verbatim>\<open>strftime\<close>, which
  returns the format string itself.
\<close>

fun document_balance :: "cell \<Rightarrow> error + string" where
  "document_balance NaN = Inr ''nan''"
| "document_balance (Num v s) = Inr (format_2f v)"
| "document_balance (Str s) = Inl ValueError"
| "document_balance (Timestamp t s) = Inr ''.2f''"
| "document_balance (Datetime t s) = Inr ''.2f''"
| "document_balance (Obj s) = Inr ''.2f''"

section \<open>The frame and the pipeline\<close>

text \<open>
  A \<^verbatim>\<open>DataFrame\<close>: the column labels and the rows, each row holding one cell per
  column. \<^verbatim>\<open>read_excel\<close> makes the labels distinct and fills a short row with NaN.
\<close>

record dataframe =
  columns :: "string list"
  rows :: "cell list list"

fun column_index :: "string \<Rightarrow> string list \<Rightarrow> nat option" where
  "column_index name [] = None"
| "column_index name (c # cs) =
     (if c = name then Some 0 else map_option Suc (column_index name cs))"

definition cell_at :: "cell list \<Rightarrow> nat \<Rightarrow> cell" where
  "cell_at row i = (if i < length row then row ! i else NaN)"

text \<open>\<^verbatim>\<open>row[name]\<close> for a label the frame has (NaN stands in where it has not).\<close>

definition field :: "string list \<Rightarrow> cell list \<Rightarrow> string \<Rightarrow> cell" where
  "field cols row name =
     (case column_index name cols of None \<Rightarrow> NaN | Some i \<Rightarrow> cell_at row i)"

text \<open>\<^verbatim>\<open>df[name]\<close>: the column, or KeyError.\<close>

definition get_column :: "dataframe \<Rightarrow> string \<Rightarrow> error + cell list" where
  "get_column df name =
     (case column_index name (columns df) of
        None \<Rightarrow> Inl (KeyError [name])
      | Some i \<Rightarrow> Inr (map (\<lambda>row. cell_at row i) (rows df)))"

text \<open>
  \<^verbatim>\<open>df.dropna(subset=..., how="any")\<close>: KeyError with the labels the frame lacks,
  otherwise the rows that have no NaN under these labels, in their order.
\<close>

definition dropna :: "dataframe \<Rightarrow> string list \<Rightarrow> error + dataframe" where
  "dropna df labels =
     (let missing = filter (\<lambda>name. name \<notin> set (columns df)) labels
      in if missing \<noteq> [] then Inl (KeyError missing)
         else Inr (df\<lparr>rows :=
                filter (\<lambda>row. list_all (\<lambda>name. \<not> isna (field (columns df) row name)) labels)
                  (rows df)\<rparr>))"

text \<open>
  \<^verbatim>\<open>Series.apply(f)\<close> for an \<open>f\<close> that may raise: the values in order, up to the first
  exception. On a frame with no rows, what \<^verbatim>\<open>DataFrame.apply(..., axis=1)\<close> returns has
  changed between pandas releases; the model takes the row-wise map there as well.
\<close>

fun series_apply :: "('a \<Rightarrow> error + 'b) \<Rightarrow> 'a list \<Rightarrow> error + 'b list" where
  "series_apply f [] = Inr []"
| "series_apply f (x # xs) =
     (case f x of
        Inl e \<Rightarrow> Inl e
      | Inr y \<Rightarrow> (case series_apply f xs of Inl e \<Rightarrow> Inl e | Inr ys \<Rightarrow> Inr (y # ys)))"

text \<open>One row of the returned frame; \<open>debtorReference\<close> is the cell itself, not its text.\<close>

record output_record =
  debtorReference :: cell
  transactionType :: string
  documentNumber :: string
  documentDate :: string
  documentBalance :: string

definition select_columns ::
  "cell list \<Rightarrow> string list \<Rightarrow> string list \<Rightarrow> string list \<Rightarrow> string list \<Rightarrow> output_record list" where
  "select_columns debtor ttype number ddate balance =
     map (\<lambda>(d, t, n, dt, b).
            \<lparr>debtorReference = d, transactionType = t, documentNumber = n,
             documentDate = dt, documentBalance = b\<rparr>)
       (zip debtor (zip ttype (zip number (zip ddate balance))))"

definition required_columns :: "string list" where
  "required_columns = [''Date'', ''Invoice No.'', ''Customer Name'', ''Card ID'']"

text \<open>
  \<^verbatim>\<open>process_excel\<close>, column by column as the source computes it. \<open>read_excel\<close> is
  \<^verbatim>\<open>pd.read_excel(_, header=9, usecols="B:G")\<close>: the frame, or the exception it raised.
\<close>

definition process_excel ::
  "('f \<Rightarrow> error + dataframe) \<Rightarrow> nat \<Rightarrow> 'f \<Rightarrow> error + output_record list" where
  "process_excel read_excel max_digits file =
     (case read_excel file of Inl e \<Rightarrow> Inl e | Inr df0 \<Rightarrow>
     (case dropna df0 required_columns of Inl e \<Rightarrow> Inl e | Inr df \<Rightarrow>
     (case get_column df ''Customer Name'' of Inl e \<Rightarrow> Inl e | Inr customer \<Rightarrow>
     (case get_column df ''Card ID'' of Inl e \<Rightarrow> Inl e | Inr card_ids \<Rightarrow>
     (let debtor = map (\<lambda>(c, k). debtor_reference c k) (zip customer card_ids) in
     (case get_column df ''Amount Due'' of Inl e \<Rightarrow> Inl e | Inr amount \<Rightarrow>
     (case series_apply transaction_type amount of Inl e \<Rightarrow> Inl e | Inr ttype \<Rightarrow>
     (case get_column df ''Invoice No.'' of Inl e \<Rightarrow> Inl e | Inr invoice \<Rightarrow>
     (case series_apply (convert_invoice max_digits) invoice of Inl e \<Rightarrow> Inl e | Inr number \<Rightarrow>
     (case get_column df ''Date'' of Inl e \<Rightarrow> Inl e | Inr dates \<Rightarrow>
     (let ddate = map convert_date dates in
     (case series_apply document_balance amount of Inl e \<Rightarrow> Inl e | Inr balance \<Rightarrow>
        Inr (select_columns debtor ttype number ddate balance)))))))))))))"

text \<open>
  What \<^verbatim>\<open>main\<close> puts on the page: the preview table and the frame whose CSV text the
  download button offers, or the exception passed to \<^verbatim>\<open>st.error\<close>.
\<close>

record page =
  preview :: "output_record list option"
  download :: "output_record list option"
  error_shown :: "error option"

definition main ::
  "('f \<Rightarrow> error + dataframe) \<Rightarrow> nat \<Rightarrow> 'f option \<Rightarrow> page" where
  "main read_excel max_digits uploaded_file =
     (case uploaded_file of
        None \<Rightarrow> \<lparr>preview = None, download = None, error_shown = None\<rparr>
      | Some file \<Rightarrow>
          (case process_excel read_excel max_digits file of
             Inr df_final \<Rightarrow>
               \<lparr>preview = Some df_final, download = Some df_final, error_shown = None\<rparr>
           | Inl e \<Rightarrow> \<lparr>preview = None, download = None, error_shown = Some e\<rparr>))"

section \<open>The pipeline, record by record\<close>

text \<open>The six named fields of a row, of which the conversion reads five.\<close>

record raw_record =
  date :: cell
  invoiceNumber :: cell
  customerName :: cell
  amountDue :: cell
  cardId :: cell

definition raw_record_of :: "string list \<Rightarrow> cell list \<Rightarrow> raw_record" where
  "raw_record_of cols row =
     \<lparr>date = field cols row ''Date'', invoiceNumber = field cols row ''Invoice No.'',
      customerName = field cols row ''Customer Name'', amountDue = field cols row ''Amount Due'',
      cardId = field cols row ''Card ID''\<rparr>"

text \<open>The filtering rule: the four required fields are present.\<close>

definition has_required :: "raw_record \<Rightarrow> bool" where
  "has_required r =
     (\<not> isna (date r) \<and> \<not> isna (invoiceNumber r) \<and> \<not> isna (customerName r) \<and> \<not> isna (cardId r))"

text \<open>The records of the frame, one per source row, and the ones that pass the filter.\<close>

definition raw_records :: "dataframe \<Rightarrow> raw_record list" where
  "raw_records df = map (raw_record_of (columns df)) (rows df)"

definition surviving :: "dataframe \<Rightarrow> raw_record list" where
  "surviving df = filter has_required (raw_records df)"

text \<open>The five conversions on one record.\<close>

definition transform :: "nat \<Rightarrow> raw_record \<Rightarrow> error + output_record" where
  "transform max_digits r =
     (case transaction_type (amountDue r) of Inl e \<Rightarrow> Inl e | Inr t \<Rightarrow>
     (case convert_invoice max_digits (invoiceNumber r) of Inl e \<Rightarrow> Inl e | Inr n \<Rightarrow>
     (case document_balance (amountDue r) of Inl e \<Rightarrow> Inl e | Inr b \<Rightarrow>
        Inr \<lparr>debtorReference = debtor_reference (customerName r) (cardId r),
             transactionType = t, documentNumber = n,
             documentDate = convert_date (date r), documentBalance = b\<rparr>)))"

definition consumed_columns :: "string list" where
  "consumed_columns = [''Date'', ''Invoice No.'', ''Customer Name'', ''Card ID'', ''Amount Due'']"

section \<open>What the specification says, for comparison\<close>

text \<open>
  The document number as the specification words it: the trimmed text, re-rendered as a
  number when it is one or more of the digits 0 to 9, unchanged otherwise, and the empty
  string for a blank cell.
\<close>

definition document_number_spec :: "cell \<Rightarrow> string" where
  "document_number_spec invoice =
     (if isna invoice then ''''
      else
        let t = strip (py_str invoice)
        in if t \<noteq> [] \<and> list_all isdecimal_char t then str_nat (digits_value t) else t)"

text \<open>The magnitude \<open>m * 2 ^ e\<close> as a rational number.\<close>

definition magnitude :: "nat \<Rightarrow> int \<Rightarrow> rat" where
  "magnitude m e = (if 0 \<le> e then of_nat m * 2 ^ nat e else of_nat m / 2 ^ nat (- e))"

text \<open>An amount that is a number below zero; a blank amount is not.\<close>

fun amount_negative :: "cell \<Rightarrow> bool" where
  "amount_negative (Num (Finite s m e) t) = ((if s then - magnitude m e else magnitude m e) < 0)"
| "amount_negative (Num (Infinity s) t) = s"
| "amount_negative _ = False"

text \<open>
  The shape of a balance: an optional minus sign, one or more digits, a point, two digits,
  and nothing else.
\<close>

definition fixed_two_decimals :: "string \<Rightarrow> bool" where
  "fixed_two_decimals s =
     (let t = (if s \<noteq> [] \<and> hd s = CHR ''-'' then tl s else s); k = length t - 3
      in 4 \<le> length t \<and> list_all isdecimal_char (take k t) \<and> t ! k = CHR ''.''
         \<and> list_all isdecimal_char (drop (Suc k) t))"

text \<open>The ten characters of \<^verbatim>\<open>YYYY-MM-DD\<close>.\<close>

definition iso_date :: "timestamp \<Rightarrow> string" where
  "iso_date t =
     [digit_char (year t div 1000), digit_char (year t div 100 mod 10),
      digit_char (year t div 10 mod 10), digit_char (year t mod 10), CHR ''-'',
      digit_char (month t div 10), digit_char (month t mod 10), CHR ''-'',
      digit_char (day t div 10), digit_char (day t mod 10)]"

text \<open>A calendar date whose year has four digits without padding.\<close>

definition calendar_date :: "timestamp \<Rightarrow> bool" where
  "calendar_date t =
     (1000 \<le> year t \<and> year t \<le> 9999 \<and> 1 \<le> month t \<and> month t \<le> 12 \<and> 1 \<le> day t \<and> day t \<le> 31)"

text \<open>
  The document date as the specification words it: the empty string for a blank cell,
  \<^verbatim>\<open>YYYY-MM-DD\<close> for a value that is a calendar date, which a \<^verbatim>\<open>pd.Timestamp\<close> and a
  \<^verbatim>\<open>datetime.datetime\<close> both are, and the text of any other value.
\<close>

fun document_date_spec :: "cell \<Rightarrow> string" where
  "document_date_spec NaN = ''''"
| "document_date_spec (Timestamp t s) = iso_date t"
| "document_date_spec (Datetime t s) = iso_date t"
| "document_date_spec val = py_str val"

section \<open>Example worksheets\<close>

definition header :: "string list" where
  "header = [''Date'', ''Invoice No.'', ''Customer Name'', ''Amount'', ''Amount Due'', ''Card ID'']"

text \<open>
  The end-to-end scenario of the specification: two data rows and the totals row. The
  amounts are the doubles nearest to 174.95 and 169.95.
\<close>

definition example_frame :: dataframe where
  "example_frame =
     \<lparr>columns = header,
      rows =
        [[Timestamp \<lparr>year = 2024, month = 1, day = 5\<rparr> ''2024-01-05 00:00:00'', Str ''00048071'',
          Str ''Acme Co'', Num (Finite False 100 0) ''100.0'',
          Num (Finite False 3077752948470579 (- 44)) ''174.95'', Str ''*None''],
         [Timestamp \<lparr>year = 2024, month = 1, day = 6\<rparr> ''2024-01-06 00:00:00'', Str ''INV-9'',
          Str ''Beta LLC'', Num (Finite True 5 0) ''-5.0'', Num (Finite True 5 0) ''-5.0'',
          Str ''C99''],
         [NaN, NaN, NaN, NaN, Num (Finite False 2989792018248499 (- 44)) ''169.95'', NaN]]\<rparr>"

definition example_output :: "output_record list" where
  "example_output =
     [\<lparr>debtorReference = Str ''Acme Co'', transactionType = ''INV'', documentNumber = ''48071'',
       documentDate = ''2024-01-05'', documentBalance = ''174.95''\<rparr>,
      \<lparr>debtorReference = Str ''C99'', transactionType = ''CRD'', documentNumber = ''INV-9'',
       documentDate = ''2024-01-06'', documentBalance = ''-5.00''\<rparr>]"

text \<open>A data row with the four required fields and a blank Amount Due, then the totals row.\<close>

definition blank_amount_frame :: dataframe where
  "blank_amount_frame =
     \<lparr>columns = header,
      rows =
        [[Str ''2024-01-05'', Str ''INV-9'', Str ''Beta LLC'', NaN, NaN, Str ''C99''],
         [NaN, NaN, NaN, NaN, Num (Finite False 0 0) ''0.0'', NaN]]\<rparr>"

definition blank_amount_output :: "output_record list" where
  "blank_amount_output =
     [\<lparr>debtorReference = Str ''C99'', transactionType = ''INV'', documentNumber = ''INV-9'',
       documentDate = ''2024-01-05'', documentBalance = ''nan''\<rparr>]"

text \<open>The invoice number that is the single character U+00B2, superscript two.\<close>

definition superscript_two :: cell where
  "superscript_two = Str [CHR 0xB2]"

definition superscript_record :: raw_record where
  "superscript_record =
     \<lparr>date = Timestamp \<lparr>year = 2024, month = 1, day = 5\<rparr> ''2024-01-05 00:00:00'',
      invoiceNumber = superscript_two, customerName = Str ''Acme Co'',
      amountDue = Num (Finite False 3077752948470579 (- 44)) ''174.95'', cardId = Str ''C1''\<rparr>"

text \<open>The sheet with that record as its only data row, and the totals row.\<close>

definition superscript_frame :: dataframe where
  "superscript_frame =
     \<lparr>columns = header,
      rows =
        [[Timestamp \<lparr>year = 2024, month = 1, day = 5\<rparr> ''2024-01-05 00:00:00'', superscript_two,
          Str ''Acme Co'', Num (Finite False 100 0) ''100.0'',
          Num (Finite False 3077752948470579 (- 44)) ''174.95'', Str ''C1''],
         [NaN, NaN, NaN, NaN, Num (Finite False 3077752948470579 (- 44)) ''174.95'', NaN]]\<rparr>"

text \<open>
  A sheet whose Date column mixes text and dates, so that pandas leaves the column with
  dtype object and the date of the second row as a \<^verbatim>\<open>datetime.datetime\<close>; then the totals
  row.
\<close>

definition mixed_date_frame :: dataframe where
  "mixed_date_frame =
     \<lparr>columns = header,
      rows =
        [[Str ''05/01/2024'', Str ''00048071'', Str ''Acme Co'', Num (Finite False 100 0) ''100.0'',
          Num (Finite False 3077752948470579 (- 44)) ''174.95'', Str ''*None''],
         [Datetime \<lparr>year = 2024, month = 1, day = 6\<rparr> ''2024-01-06 00:00:00'', Str ''INV-9'',
          Str ''Beta LLC'', Num (Finite True 5 0) ''-5.0'', Num (Finite True 5 0) ''-5.0'',
          Str ''C99''],
         [NaN, NaN, NaN, NaN, Num (Finite False 2989792018248499 (- 44)) ''169.95'', NaN]]\<rparr>"

definition mixed_date_records :: "raw_record list" where
  "mixed_date_records =
     [\<lparr>date = Str ''05/01/2024'', invoiceNumber = Str ''00048071'', customerName = Str ''Acme Co'',
       amountDue = Num (Finite False 3077752948470579 (- 44)) ''174.95'', cardId = Str ''*None''\<rparr>,
      \<lparr>date = Datetime \<lparr>year = 2024, month = 1, day = 6\<rparr> ''2024-01-06 00:00:00'',
       invoiceNumber = Str ''INV-9'', customerName = Str ''Beta LLC'',
       amountDue = Num (Finite True 5 0) ''-5.0'', cardId = Str ''C99''\<rparr>]"

definition mixed_date_output :: "output_record list" where
  "mixed_date_output =
     [\<lparr>debtorReference = Str ''Acme Co'', transactionType = ''INV'', documentNumber = ''48071'',
       documentDate = ''05/01/2024'', documentBalance = ''174.95''\<rparr>,
      \<lparr>debtorReference = Str ''C99'', transactionType = ''CRD'', documentNumber = ''INV-9'',
       documentDate = ''2024-01-06 00:00:00'', documentBalance = ''-5.00''\<rparr>]"

text \<open>A sheet whose header row lacks the label \<open>Card ID\<close>.\<close>

definition headless_frame :: dataframe where
  "headless_frame =
     \<lparr>columns = [''Date'', ''Invoice No.'', ''Customer Name'', ''Amount'', ''Amount Due'', ''Unnamed: 6''],
      rows = [[Str ''2024-01-05'', Str ''INV-9'', Str ''Beta LLC'', NaN, NaN, Str ''C99'']]\<rparr>"

section \<open>The pipeline, characterised\<close>

lemma series_apply_sound:
  "series_apply f xs = Inr ys \<Longrightarrow> list_all2 (\<lambda>x y. f x = Inr y) xs ys"
  by (induction xs arbitrary: ys) (auto split: sum.splits)

lemma series_apply_complete:
  "list_all2 (\<lambda>x y. f x = Inr y) xs ys \<Longrightarrow> series_apply f xs = Inr ys"
  by (induction rule: list_all2_induct) auto

lemma series_apply_Inr:
  "series_apply f xs = Inr ys \<longleftrightarrow> list_all2 (\<lambda>x y. f x = Inr y) xs ys"
  using series_apply_sound series_apply_complete by blast

lemma column_index_None: "column_index name cs = None \<longleftrightarrow> name \<notin> set cs"
  by (induction cs) auto

lemma get_column_Inr:
  "get_column df name = Inr ys \<longleftrightarrow>
     name \<in> set (columns df) \<and> ys = map (\<lambda>row. field (columns df) row name) (rows df)"
proof (cases "column_index name (columns df)")
  case None
  then show ?thesis by (simp add: get_column_def column_index_None [symmetric])
next
  case (Some i)
  then have "name \<in> set (columns df)"
    using column_index_None [of name "columns df"] by auto
  with Some show ?thesis by (auto simp: get_column_def field_def)
qed

lemma dropna_Inr:
  "dropna df labels = Inr df' \<longleftrightarrow>
     set labels \<subseteq> set (columns df) \<and>
     df' = df\<lparr>rows := filter (\<lambda>row. list_all (\<lambda>name. \<not> isna (field (columns df) row name)) labels) (rows df)\<rparr>"
  by (auto simp: dropna_def Let_def filter_empty_conv)

lemma required_row:
  "list_all (\<lambda>name. \<not> isna (field cols row name)) required_columns = has_required (raw_record_of cols row)"
  by (simp add: required_columns_def has_required_def raw_record_of_def)

lemma dropna_required:
  "dropna df required_columns = Inr df' \<longleftrightarrow>
     set required_columns \<subseteq> set (columns df) \<and> columns df' = columns df \<and>
     dataframe.more df' = dataframe.more df \<and>
     rows df' = filter (\<lambda>row. has_required (raw_record_of (columns df) row)) (rows df)"
  by (auto simp: dropna_Inr required_row)

lemma raw_records_dropna:
  "dropna df required_columns = Inr df' \<Longrightarrow> raw_records df' = surviving df"
  by (simp add: dropna_required raw_records_def surviving_def filter_map comp_def)


lemma sum_case_Inr:
  "(case x of Inl e \<Rightarrow> Inl e | Inr v \<Rightarrow> g v) = Inr out \<longleftrightarrow> (\<exists>v. x = Inr v \<and> g v = Inr out)"
  by (cases x) auto

lemma transform_Inr:
  "transform max_digits r = Inr out \<longleftrightarrow>
     (\<exists>t n b. transaction_type (amountDue r) = Inr t \<and>
        convert_invoice max_digits (invoiceNumber r) = Inr n \<and>
        document_balance (amountDue r) = Inr b \<and>
        out = \<lparr>debtorReference = debtor_reference (customerName r) (cardId r),
               transactionType = t, documentNumber = n,
               documentDate = convert_date (date r), documentBalance = b\<rparr>)"
  by (auto simp: transform_def sum_case_Inr)

lemma select_columns_Nil [simp]: "select_columns [] t n d b = []"
  by (simp add: select_columns_def)

lemma select_columns_Cons [simp]:
  "select_columns (x # xs) (t # ts) (n # ns) (d # ds) (b # bs) =
     \<lparr>debtorReference = x, transactionType = t, documentNumber = n,
      documentDate = d, documentBalance = b\<rparr> # select_columns xs ts ns ds bs"
  by (simp add: select_columns_def)

lemma columns_transform_sound:
  "list_all2 (\<lambda>r y. transaction_type (amountDue r) = Inr y) rs ts \<Longrightarrow>
   list_all2 (\<lambda>r y. convert_invoice max_digits (invoiceNumber r) = Inr y) rs ns \<Longrightarrow>
   list_all2 (\<lambda>r y. document_balance (amountDue r) = Inr y) rs bs \<Longrightarrow>
   list_all2 (\<lambda>r out. transform max_digits r = Inr out) rs
     (select_columns (map (\<lambda>r. debtor_reference (customerName r) (cardId r)) rs) ts ns
        (map (\<lambda>r. convert_date (date r)) rs) bs)"
proof (induction rs arbitrary: ts ns bs)
  case Nil
  then show ?case by simp
next
  case (Cons r rs)
  then show ?case
    by (auto simp: list_all2_Cons1 transform_Inr)
qed

lemma columns_transform_complete:
  "list_all2 (\<lambda>r out. transform max_digits r = Inr out) rs outs \<Longrightarrow>
   list_all2 (\<lambda>r y. transaction_type (amountDue r) = Inr y) rs (map transactionType outs) \<and>
   list_all2 (\<lambda>r y. convert_invoice max_digits (invoiceNumber r) = Inr y) rs (map documentNumber outs) \<and>
   list_all2 (\<lambda>r y. document_balance (amountDue r) = Inr y) rs (map documentBalance outs) \<and>
   outs = select_columns (map (\<lambda>r. debtor_reference (customerName r) (cardId r)) rs)
            (map transactionType outs) (map documentNumber outs)
            (map (\<lambda>r. convert_date (date r)) rs) (map documentBalance outs)"
  by (induction rule: list_all2_induct) (auto simp: transform_Inr)


lemma series_apply_map:
  "series_apply f (map g xs) = Inr ys \<longleftrightarrow> list_all2 (\<lambda>x y. f (g x) = Inr y) xs ys"
  by (simp add: series_apply_Inr list_all2_map1)

lemma get_column_dropna:
  assumes "dropna df required_columns = Inr df'" and "name \<in> set (columns df)"
  shows "get_column df' name = Inr (map (\<lambda>row. field (columns df) row name) (rows df'))"
  using assms by (simp add: get_column_Inr dropna_required)

lemma surviving_fields:
  assumes "dropna df required_columns = Inr df'"
  shows "map (\<lambda>row. field (columns df) row ''Date'') (rows df') = map date (surviving df)"
    and "map (\<lambda>row. field (columns df) row ''Invoice No.'') (rows df') = map invoiceNumber (surviving df)"
    and "map (\<lambda>row. field (columns df) row ''Customer Name'') (rows df') = map customerName (surviving df)"
    and "map (\<lambda>row. field (columns df) row ''Amount Due'') (rows df') = map amountDue (surviving df)"
    and "map (\<lambda>row. field (columns df) row ''Card ID'') (rows df') = map cardId (surviving df)"
proof -
  have "columns df' = columns df"
    using assms by (simp add: dropna_required)
  then have "surviving df = map (raw_record_of (columns df)) (rows df')"
    using raw_records_dropna [OF assms] by (simp add: raw_records_def)
  then show "map (\<lambda>row. field (columns df) row ''Date'') (rows df') = map date (surviving df)"
    and "map (\<lambda>row. field (columns df) row ''Invoice No.'') (rows df') = map invoiceNumber (surviving df)"
    and "map (\<lambda>row. field (columns df) row ''Customer Name'') (rows df') = map customerName (surviving df)"
    and "map (\<lambda>row. field (columns df) row ''Amount Due'') (rows df') = map amountDue (surviving df)"
    and "map (\<lambda>row. field (columns df) row ''Card ID'') (rows df') = map cardId (surviving df)"
    by (simp_all add: raw_record_of_def)
qed

lemma get_column_absent:
  "name \<notin> set (columns df) \<Longrightarrow> get_column df name = Inl (KeyError [name])"
  by (simp add: get_column_def column_index_None [THEN iffD2])

lemma dropna_absent:
  "\<not> set labels \<subseteq> set (columns df) \<Longrightarrow>
     dropna df labels = Inl (KeyError (filter (\<lambda>name. name \<notin> set (columns df)) labels))"
  by (auto simp: dropna_def Let_def filter_empty_conv)

lemma debtor_column:
  "map (\<lambda>(c, k). debtor_reference c k) (zip (map customerName rs) (map cardId rs)) =
     map (\<lambda>r. debtor_reference (customerName r) (cardId r)) rs"
  by (induction rs) auto

lemma process_excel_Inr:
  "process_excel rd max_digits f = Inr out \<longleftrightarrow>
     (\<exists>df. rd f = Inr df \<and> set consumed_columns \<subseteq> set (columns df) \<and>
        list_all2 (\<lambda>r out_r. transform max_digits r = Inr out_r) (surviving df) out)"
proof (cases "rd f")
  case (Inl e)
  then show ?thesis by (simp add: process_excel_def)
next
  case (Inr df)
  show ?thesis
  proof (cases "set consumed_columns \<subseteq> set (columns df)")
    case False
    have "\<exists>e. process_excel rd max_digits f = Inl e"
    proof (cases "set required_columns \<subseteq> set (columns df)")
      case False
      then show ?thesis
        by (simp add: process_excel_def Inr dropna_absent)
    next
      case True
      then obtain df' where d: "dropna df required_columns = Inr df'"
        by (auto simp: dropna_Inr)
      then have c: "columns df' = columns df"
        by (simp add: dropna_required)
      from True \<open>\<not> set consumed_columns \<subseteq> set (columns df)\<close>
      have "''Amount Due'' \<notin> set (columns df')" and "''Customer Name'' \<in> set (columns df)"
        and "''Card ID'' \<in> set (columns df)"
        by (auto simp: c consumed_columns_def required_columns_def)
      then show ?thesis
        by (simp add: process_excel_def Inr d get_column_absent get_column_dropna [OF d])
    qed
    then have "process_excel rd max_digits f \<noteq> Inr out"
      by auto
    with False Inr show ?thesis by auto
  next
    case True
    then have req: "set required_columns \<subseteq> set (columns df)"
      and names: "''Date'' \<in> set (columns df)" "''Invoice No.'' \<in> set (columns df)"
        "''Customer Name'' \<in> set (columns df)" "''Amount Due'' \<in> set (columns df)"
        "''Card ID'' \<in> set (columns df)"
      by (auto simp: consumed_columns_def required_columns_def)
    from req obtain df' where d: "dropna df required_columns = Inr df'"
      by (auto simp: dropna_Inr)
    note cols = names [THEN get_column_dropna [OF d]]
    note flds = surviving_fields [OF d]
    have "process_excel rd max_digits f = Inr out \<longleftrightarrow>
      (\<exists>ts ns bs.
         list_all2 (\<lambda>r y. transaction_type (amountDue r) = Inr y) (surviving df) ts \<and>
         list_all2 (\<lambda>r y. convert_invoice max_digits (invoiceNumber r) = Inr y) (surviving df) ns \<and>
         list_all2 (\<lambda>r y. document_balance (amountDue r) = Inr y) (surviving df) bs \<and>
         out = select_columns (map (\<lambda>r. debtor_reference (customerName r) (cardId r)) (surviving df))
                 ts ns (map (\<lambda>r. convert_date (date r)) (surviving df)) bs)"
      by (simp add: process_excel_def Inr d cols flds sum_case_Inr series_apply_map
          debtor_column comp_def) blast
    also have "\<dots> \<longleftrightarrow> list_all2 (\<lambda>r out_r. transform max_digits r = Inr out_r) (surviving df) out"
      using columns_transform_sound columns_transform_complete by blast
    finally show ?thesis using Inr True by simp
  qed
qed



lemma digit_char_numeral [simp]:
  "digit_char 0 = CHR ''0''" "digit_char (Suc 0) = CHR ''1''" "digit_char 1 = CHR ''1''"
  "digit_char 2 = CHR ''2''" "digit_char 3 = CHR ''3''" "digit_char 4 = CHR ''4''"
  "digit_char 5 = CHR ''5''" "digit_char 6 = CHR ''6''" "digit_char 7 = CHR ''7''"
  "digit_char 8 = CHR ''8''" "digit_char 9 = CHR ''9''"
  by (simp_all add: digit_char_def char_of_eq_iff)

lemmas run_defs = process_excel_def header_def
      dropna_def required_columns_def field_def cell_at_def get_column_def
      select_columns_def debtor_reference_def strip_def isspace_def convert_invoice_def
      isdigit_def isdigit_char_def isdecimal_char_def py_int_def digits_value_def digit_val_def
      str_nat.simps strftime_ymd_def zero_pad_def hundredths_def
      round_half_even_def Let_def

lemma example_run:
  "process_excel (\<lambda>_::unit. Inr example_frame) max_digits () = Inr example_output"
  by (simp add: example_frame_def example_output_def run_defs)

lemma blank_amount_run:
  "process_excel (\<lambda>_::unit. Inr blank_amount_frame) max_digits () = Inr blank_amount_output"
  by (simp add: blank_amount_frame_def blank_amount_output_def run_defs)

lemma headless_run:
  "process_excel (\<lambda>_::unit. Inr headless_frame) max_digits () = Inl (KeyError [''Card ID''])"
  by (simp add: headless_frame_def run_defs)

lemma example_surviving:
  "surviving example_frame =
     [\<lparr>date = Timestamp \<lparr>year = 2024, month = 1, day = 5\<rparr> ''2024-01-05 00:00:00'',
       invoiceNumber = Str ''00048071'', customerName = Str ''Acme Co'',
       amountDue = Num (Finite False 3077752948470579 (- 44)) ''174.95'', cardId = Str ''*None''\<rparr>,
      \<lparr>date = Timestamp \<lparr>year = 2024, month = 1, day = 6\<rparr> ''2024-01-06 00:00:00'',
       invoiceNumber = Str ''INV-9'', customerName = Str ''Beta LLC'',
       amountDue = Num (Finite True 5 0) ''-5.0'', cardId = Str ''C99''\<rparr>]"
  by (simp add: surviving_def raw_records_def raw_record_of_def has_required_def
      example_frame_def header_def field_def cell_at_def)

lemma blank_amount_surviving:
  "surviving blank_amount_frame =
     [\<lparr>date = Str ''2024-01-05'', invoiceNumber = Str ''INV-9'', customerName = Str ''Beta LLC'',
       amountDue = NaN, cardId = Str ''C99''\<rparr>]"
  by (simp add: surviving_def raw_records_def raw_record_of_def has_required_def
      blank_amount_frame_def header_def field_def cell_at_def)

lemma process_excel_nth:
  assumes "read_excel file = Inr df" and "process_excel read_excel max_digits file = Inr out"
  shows "length out = length (surviving df)"
    and "i < length out \<Longrightarrow> transform max_digits (surviving df ! i) = Inr (out ! i)"
  using assms by (auto simp: process_excel_Inr list_all2_conv_all_nth)

lemma float_neg_magnitude:
  "float_neg (Finite s m e) \<longleftrightarrow> (if s then - magnitude m e else magnitude m e) < 0"
  by (auto simp: magnitude_def zero_less_mult_iff zero_less_divide_iff mult_less_0_iff divide_less_0_iff)

lemma transaction_type_amount:
  "transaction_type a = Inr t \<Longrightarrow> t = (if amount_negative a then ''CRD'' else ''INV'')"
  by (cases a rule: amount_negative.cases) (simp_all add: flip: float_neg_magnitude)

section \<open>Decimal text\<close>

lemma isdecimal_digit_char: "d < 10 \<Longrightarrow> isdecimal_char (digit_char d)"
  by (simp add: isdecimal_char_def digit_char_def)

lemma digit_val_digit_char: "d < 10 \<Longrightarrow> digit_val (digit_char d) = d"
  by (simp add: digit_val_def digit_char_def)

lemma str_nat_decimal: "list_all isdecimal_char (str_nat n)"
proof (induction n rule: str_nat.induct)
  case (1 n)
  show ?case
    by (subst str_nat.simps) (use 1 in \<open>auto simp: isdecimal_digit_char\<close>)
qed

lemma str_nat_not_Nil: "str_nat n \<noteq> []"
  by (subst str_nat.simps) simp

lemma digits_value_snoc: "digits_value (s @ [c]) = 10 * digits_value s + digit_val c"
  by (simp add: digits_value_def)

lemma digits_value_single: "digits_value [c] = digit_val c"
  by (simp add: digits_value_def)

lemma digits_value_str_nat: "digits_value (str_nat n) = n"
proof (induction n rule: str_nat.induct)
  case (1 n)
  show ?case
  proof (cases "n < 10")
    case True
    then show ?thesis
      by (subst str_nat.simps) (simp add: digits_value_single digit_val_digit_char)
  next
    case False
    with 1 show ?thesis
      by (subst str_nat.simps) (simp add: digits_value_snoc digit_val_digit_char)
  qed
qed

lemma not_decimal_minus_point: "\<not> isdecimal_char CHR ''-''" "\<not> isdecimal_char CHR ''.''"
  by (simp_all add: isdecimal_char_def)

lemma filter_decimal_str_nat: "filter isdecimal_char (str_nat n) = str_nat n"
  using str_nat_decimal [of n] by (simp add: list_all_iff)

lemma hd_str_nat_decimal: "isdecimal_char (hd (str_nat n))"
  using str_nat_decimal [of n] str_nat_not_Nil [of n] by (cases "str_nat n") simp_all

lemma two_digit_split: "100 * (n div 100) + 10 * (n mod 100 div 10) + n mod 10 = (n::nat)"
proof -
  define q r d u where "q = n div 100" and "r = n mod 100" and "d = n mod 100 div 10"
    and "u = n mod 10"
  have a: "r mod 10 = u"
    by (simp add: r_def u_def mod_mod_cancel)
  have b: "r = 10 * d + r mod 10"
    by (simp add: r_def d_def)
  have c: "n = 100 * q + r"
    by (simp add: q_def r_def)
  have "100 * q + 10 * d + u = n"
    using a b c by simp
  then show ?thesis
    by (simp add: q_def d_def u_def)
qed

lemma format_2f_digits:
  "digits_value (filter isdecimal_char (format_2f (Finite s m e))) = hundredths m e"
proof -
  define n where "n = hundredths m e"
  note ar = two_digit_split [of n]
  have "digits_value (str_nat (n div 100) @ [digit_char (n mod 100 div 10), digit_char (n mod 10)])
      = 10 * (10 * digits_value (str_nat (n div 100)) + digit_val (digit_char (n mod 100 div 10)))
        + digit_val (digit_char (n mod 10))"
    by (simp add: digits_value_def)
  also have "\<dots> = n"
    by (simp only: digits_value_str_nat) (simp add: digit_val_digit_char ar)
  finally have "digits_value (str_nat (n div 100) @ [digit_char (n mod 100 div 10), digit_char (n mod 10)])
      = n" .
  then show ?thesis
    by (simp add: n_def Let_def filter_decimal_str_nat not_decimal_minus_point isdecimal_digit_char)
qed

lemma format_2f_shape: "fixed_two_decimals (format_2f (Finite s m e))"
proof -
  define q where "q = str_nat (hundredths m e div 100)"
  define d1 where "d1 = digit_char (hundredths m e mod 100 div 10)"
  define d2 where "d2 = digit_char (hundredths m e mod 10)"
  let ?body = "q @ ''.'' @ [d1, d2]"
  have q: "q \<noteq> []" "list_all isdecimal_char q" "hd q \<noteq> CHR ''-''"
    using hd_str_nat_decimal [of "hundredths m e div 100"] not_decimal_minus_point
    by (auto simp: q_def str_nat_not_Nil str_nat_decimal)
  have d: "isdecimal_char d1" "isdecimal_char d2"
    by (simp_all add: d1_def d2_def isdecimal_digit_char)
  have f: "format_2f (Finite s m e) = (if s then ''-'' else '''') @ ?body"
    by (simp add: Let_def q_def d1_def d2_def)
  have t: "(if format_2f (Finite s m e) \<noteq> [] \<and> hd (format_2f (Finite s m e)) = CHR ''-''
            then tl (format_2f (Finite s m e)) else format_2f (Finite s m e)) = ?body"
    unfolding f using q by (cases s) (simp_all add: hd_append)
  have "length ?body - 3 = length q"
    by simp
  moreover have "4 \<le> length ?body"
    using q(1) by (cases q) simp_all
  ultimately show ?thesis
    unfolding fixed_two_decimals_def t Let_def
    using q d by (simp add: nth_append)
qed

lemma format_2f_sign: "(hd (format_2f (Finite s m e)) = CHR ''-'') = s"
  using hd_str_nat_decimal [of "hundredths m e div 100"] str_nat_not_Nil [of "hundredths m e div 100"]
    not_decimal_minus_point
  by (cases s) (auto simp: Let_def hd_append)

lemma round_half_even_bound:
  assumes "0 < d"
  shows "\<bar>(of_nat (round_half_even a d) :: rat) - of_nat a / of_nat d\<bar> \<le> 1 / 2"
proof -
  define q where "q = a div d"
  define r where "r = a mod d"
  have a: "a = q * d + r" and r: "r < d"
    using assms by (simp_all add: q_def r_def)
  have dpos: "(0::rat) < of_nat d"
    using assms by simp
  have frac: "(of_nat a :: rat) / of_nat d = of_nat q + of_nat r / of_nat d"
    using dpos by (simp add: a field_simps)
  show ?thesis
  proof (cases "d < 2 * r \<or> (2 * r = d \<and> odd q)")
    case True
    then have "d \<le> 2 * r"
      by auto
    then have "(of_nat d :: rat) \<le> 2 * of_nat r"
      by (metis of_nat_le_iff of_nat_mult of_nat_numeral)
    moreover have "(of_nat r :: rat) < of_nat d"
      using r by simp
    moreover have "round_half_even a d = q + 1"
      using True by (simp add: round_half_even_def q_def r_def Let_def)
    ultimately show ?thesis
      using dpos by (simp add: frac abs_le_iff field_simps)
  next
    case False
    then have "2 * r \<le> d"
      by auto
    then have "2 * (of_nat r :: rat) \<le> of_nat d"
      by (metis of_nat_le_iff of_nat_mult of_nat_numeral)
    moreover have "round_half_even a d = q"
      using False by (simp add: round_half_even_def q_def r_def Let_def)
    ultimately show ?thesis
      using dpos by (simp add: frac abs_le_iff field_simps)
  qed
qed

lemma hundredths_bound: "\<bar>of_nat (hundredths m e) - 100 * magnitude m e\<bar> \<le> 1 / 2"
proof (cases "0 \<le> e")
  case True
  then show ?thesis
    by (simp add: hundredths_def magnitude_def)
next
  case False
  have "\<bar>(of_nat (round_half_even (m * 100) (2 ^ nat (- e))) :: rat)
          - of_nat (m * 100) / of_nat (2 ^ nat (- e))\<bar> \<le> 1 / 2"
    by (rule round_half_even_bound) simp
  with False show ?thesis
    by (simp add: hundredths_def magnitude_def mult.commute)
qed

lemma str_nat_1: "n < 10 \<Longrightarrow> str_nat n = [digit_char n]"
  by (subst str_nat.simps) simp

lemma str_nat_2:
  "10 \<le> n \<Longrightarrow> n < 100 \<Longrightarrow> str_nat n = [digit_char (n div 10), digit_char (n mod 10)]"
  by (subst str_nat.simps) (simp add: str_nat_1)

lemma str_nat_3:
  "100 \<le> n \<Longrightarrow> n < 1000 \<Longrightarrow>
     str_nat n = [digit_char (n div 100), digit_char (n div 10 mod 10), digit_char (n mod 10)]"
  by (subst str_nat.simps) (simp add: str_nat_2 div_mult2_eq [symmetric] less_mult_imp_div_less)

lemma str_nat_4:
  "1000 \<le> n \<Longrightarrow> n < 10000 \<Longrightarrow>
     str_nat n = [digit_char (n div 1000), digit_char (n div 100 mod 10),
       digit_char (n div 10 mod 10), digit_char (n mod 10)]"
  by (subst str_nat.simps) (simp add: str_nat_3 div_mult2_eq [symmetric] less_mult_imp_div_less)

lemma zero_pad_2: "n < 100 \<Longrightarrow> zero_pad 2 n = [digit_char (n div 10), digit_char (n mod 10)]"
  by (cases "n < 10") (simp_all add: zero_pad_def str_nat_1 str_nat_2)

lemma strftime_iso: "calendar_date t \<Longrightarrow> strftime_ymd t = iso_date t"
  by (simp add: calendar_date_def strftime_ymd_def iso_date_def zero_pad_2 str_nat_4)

text \<open>
  The document date of the pipeline, cell by cell: a Timestamp of a year from 1000 to 9999
  gives the ten characters of \<^verbatim>\<open>YYYY-MM-DD\<close>, every other cell its text.
\<close>

lemma document_date_by_cell:
  assumes "read_excel upload = Inr df"
    and "process_excel read_excel max_digits upload = Inr out"
    and "i < length out"
  shows "(\<forall>t s. date (surviving df ! i) = Timestamp t s \<and> calendar_date t
            \<longrightarrow> documentDate (out ! i) = iso_date t) \<and>
         ((\<forall>t s. date (surviving df ! i) \<noteq> Timestamp t s)
            \<longrightarrow> documentDate (out ! i) = py_str (date (surviving df ! i)))"
proof -
  from process_excel_nth(2) [OF assms]
  have d: "documentDate (out ! i) = convert_date (date (surviving df ! i))"
    by (auto simp: transform_Inr)
  from process_excel_nth(1) [OF assms(1,2)] assms(3)
  have "surviving df ! i \<in> set (surviving df)"
    by simp
  then have "\<not> isna (date (surviving df ! i))"
    by (auto simp: surviving_def has_required_def)
  then show ?thesis
    unfolding d by (cases "date (surviving df ! i)") (simp_all add: strftime_iso)
qed

section \<open>The document number\<close>

lemma digit_char_digit_val: "isdecimal_char c \<Longrightarrow> digit_char (digit_val c) = c"
  by (simp add: isdecimal_char_def digit_char_def digit_val_def Let_def)

lemma digit_val_less: "isdecimal_char c \<Longrightarrow> digit_val c < 10"
  by (auto simp: isdecimal_char_def digit_val_def Let_def)

lemma digit_val_zero: "isdecimal_char c \<Longrightarrow> digit_val c = 0 \<longleftrightarrow> c = CHR ''0''"
  using digit_char_digit_val [of c] by (auto simp: digit_val_def)

lemma digits_value_zero:
  "list_all isdecimal_char s \<Longrightarrow> digits_value s = 0 \<longleftrightarrow> (\<forall>c\<in>set s. c = CHR ''0'')"
proof (induction s rule: rev_induct)
  case Nil
  then show ?case by (simp add: digits_value_def)
next
  case (snoc c s)
  then show ?case
    by (auto simp: digits_value_snoc digit_val_zero)
qed

lemma str_nat_snoc:
  "d < 10 \<Longrightarrow> str_nat (10 * v + d) = (if v = 0 then [digit_char d] else str_nat v @ [digit_char d])"
  by (subst str_nat.simps) simp

text \<open>
  On a string of decimal digits, \<^verbatim>\<open>str(int(s))\<close> strips the leading zeros, and leaves
  \<^verbatim>\<open>0\<close> when nothing else is left.
\<close>

lemma str_nat_digits_value:
  assumes "list_all isdecimal_char s"
  shows "str_nat (digits_value s) =
     (if dropWhile (\<lambda>c. c = CHR ''0'') s = [] then ''0'' else dropWhile (\<lambda>c. c = CHR ''0'') s)"
  using assms
proof (induction s rule: rev_induct)
  case Nil
  then show ?case by (simp add: digits_value_def str_nat_1)
next
  case (snoc c s)
  then have dec: "list_all isdecimal_char s" "isdecimal_char c"
    by simp_all
  have v: "digits_value (s @ [c]) = 10 * digits_value s + digit_val c"
    by (rule digits_value_snoc)
  show ?case
  proof (cases "\<forall>x\<in>set s. x = CHR ''0''")
    case True
    then have "digits_value s = 0"
      using digits_value_zero [OF dec(1)] by simp
    moreover have "dropWhile (\<lambda>c. c = CHR ''0'') (s @ [c]) = dropWhile (\<lambda>c. c = CHR ''0'') [c]"
      using True by (simp add: dropWhile_append2)
    ultimately show ?thesis
      using dec(2) by (auto simp: v str_nat_1 digit_val_less digit_char_digit_val)
  next
    case False
    then have nz: "digits_value s \<noteq> 0"
      using digits_value_zero [OF dec(1)] by simp
    from False have z: "dropWhile (\<lambda>c. c = CHR ''0'') (s @ [c]) = dropWhile (\<lambda>c. c = CHR ''0'') s @ [c]"
      by (auto simp: dropWhile_append1)
    from False have ne: "dropWhile (\<lambda>c. c = CHR ''0'') s \<noteq> []"
      by (auto simp: dropWhile_eq_Nil_conv)
    with snoc.IH [OF dec(1)] have ih: "str_nat (digits_value s) = dropWhile (\<lambda>c. c = CHR ''0'') s"
      by (simp only: if_False)
    have "str_nat (digits_value (s @ [c])) = dropWhile (\<lambda>c. c = CHR ''0'') s @ [c]"
      using nz dec(2) by (simp add: v str_nat_snoc digit_val_less digit_char_digit_val ih)
    then show ?thesis
      using ne by (simp only: z) simp
  qed
qed

text \<open>
  Away from the superscript digits and within the interpreter's digit limit, the code
  computes the document number of the specification.
\<close>

lemma convert_invoice_meets_spec:
  assumes "list_all (\<lambda>c. (of_char c :: nat) \<notin> {178, 179, 185}) (strip (py_str invoice))"
    and "length (strip (py_str invoice)) \<le> 640 \<or> max_digits = 0
         \<or> length (strip (py_str invoice)) \<le> max_digits"
  shows "convert_invoice max_digits invoice = Inr (document_number_spec invoice)"
proof -
  define t where "t = strip (py_str invoice)"
  have "list_all isdigit_char t \<longleftrightarrow> list_all isdecimal_char t"
    using assms(1) unfolding t_def [symmetric]
    by (induction t) (auto simp: isdigit_char_def isdecimal_char_def Let_def)
  then show ?thesis
    using assms(2) unfolding t_def [symmetric]
    by (auto simp: convert_invoice_def document_number_spec_def isdigit_def py_int_def Let_def
        t_def [symmetric])
qed

lemma convert_invoice_examples:
  "convert_invoice max_digits (Str ''00048071'') = Inr ''48071''"
  "convert_invoice max_digits (Str ''INV-204'') = Inr ''INV-204''"
  "convert_invoice max_digits (Str ''48071.0'') = Inr ''48071.0''"
  "convert_invoice max_digits (Str ''-12'') = Inr ''-12''"
  "convert_invoice max_digits NaN = Inr ''''"
  by (simp_all add: convert_invoice_def strip_def isspace_def isdigit_def isdigit_char_def
      py_int_def isdecimal_char_def digits_value_def digit_val_def str_nat.simps)

section \<open>Claims\<close>

text \<open>
  C1. When the sheet has the four required columns, extraction returns exactly the rows
  in which Date, Invoice No., Customer Name and Card ID are all present, in their order.
  So when the last row is the only one that misses a required field, one row fewer than
  the sheet's data rows is left, and the output has that many rows.
\<close>

theorem extraction_keeps_required_rows:
  assumes "set required_columns \<subseteq> set (columns df)"
  shows "\<exists>df'. dropna df required_columns = Inr df' \<and>
           raw_records df' = filter has_required (raw_records df) \<and>
           (\<forall>data total.
              raw_records df = data @ [total] \<and> list_all has_required data \<and> \<not> has_required total
              \<longrightarrow> raw_records df' = data \<and> length (rows df') = length (rows df) - 1) \<and>
           (read_excel upload = Inr df \<and> process_excel read_excel max_digits upload = Inr out
              \<longrightarrow> length out = length (rows df'))"
proof -
  from assms obtain df' where d: "dropna df required_columns = Inr df'"
    by (auto simp: dropna_Inr)
  have kept: "raw_records df' = filter has_required (raw_records df)"
    using raw_records_dropna [OF d] by (simp add: surviving_def)
  have len: "length (rows df') = length (raw_records df')" "length (rows df) = length (raw_records df)"
    by (simp_all add: raw_records_def)
  have "raw_records df' = data \<and> length (rows df') = length (rows df) - 1"
    if "raw_records df = data @ [total]" "list_all has_required data" "\<not> has_required total"
    for data total
    using that by (simp add: kept len list_all_iff)
  moreover have "length out = length (rows df')"
    if "read_excel upload = Inr df" "process_excel read_excel max_digits upload = Inr out"
    using process_excel_nth(1) [OF that] kept by (simp add: len surviving_def)
  ultimately show ?thesis
    using d kept by blast
qed

theorem extraction_keeps_required_rows_witness:
  "set required_columns \<subseteq> set (columns example_frame) \<and>
   raw_records example_frame =
     surviving example_frame @
       [\<lparr>date = NaN, invoiceNumber = NaN, customerName = NaN,
         amountDue = Num (Finite False 2989792018248499 (- 44)) ''169.95'', cardId = NaN\<rparr>] \<and>
   list_all has_required (surviving example_frame) \<and>
   \<not> has_required
       \<lparr>date = NaN, invoiceNumber = NaN, customerName = NaN,
        amountDue = Num (Finite False 2989792018248499 (- 44)) ''169.95'', cardId = NaN\<rparr> \<and>
   (\<exists>df'. dropna example_frame required_columns = Inr df' \<and>
      raw_records df' = surviving example_frame \<and> length (rows df') = 2) \<and>
   length (rows example_frame) = 3 \<and>
   process_excel (\<lambda>_::unit. Inr example_frame) 4300 () = Inr example_output \<and>
   length example_output = 2"
proof -
  let ?total = "\<lparr>date = NaN, invoiceNumber = NaN, customerName = NaN,
         amountDue = Num (Finite False 2989792018248499 (- 44)) ''169.95'', cardId = NaN\<rparr>"
  have req: "set required_columns \<subseteq> set (columns example_frame)"
    by (simp add: required_columns_def example_frame_def header_def)
  have recs: "raw_records example_frame = surviving example_frame @ [?total]"
    by (simp add: example_surviving)
      (simp add: raw_records_def raw_record_of_def example_frame_def header_def field_def cell_at_def)
  have ok: "list_all has_required (surviving example_frame)"
    by (simp add: example_surviving has_required_def)
  have tot: "\<not> has_required ?total"
    by (simp add: has_required_def)
  have len: "length (rows example_frame) = 3"
    by (simp add: example_frame_def)
  from extraction_keeps_required_rows [OF req, where read_excel = "\<lambda>_::unit. Inr example_frame"
      and upload = "()" and max_digits = 4300 and out = example_output]
  obtain df' where d: "dropna example_frame required_columns = Inr df'"
    and t: "\<forall>data total.
              raw_records example_frame = data @ [total] \<and> list_all has_required data \<and> \<not> has_required total
              \<longrightarrow> raw_records df' = data \<and> length (rows df') = length (rows example_frame) - 1"
    by blast
  from t [THEN spec, THEN spec, THEN mp, OF conjI [OF recs conjI [OF ok tot]]]
  have k: "raw_records df' = surviving example_frame" and l: "length (rows df') = 2"
    by (simp_all add: len)
  show ?thesis
  proof (intro conjI)
    show "set required_columns \<subseteq> set (columns example_frame)"
      by (rule req)
    show "raw_records example_frame = surviving example_frame @ [?total]"
      by (rule recs)
    show "list_all has_required (surviving example_frame)"
      by (rule ok)
    show "\<not> has_required ?total"
      by (rule tot)
    show "\<exists>df'. dropna example_frame required_columns = Inr df' \<and>
      raw_records df' = surviving example_frame \<and> length (rows df') = 2"
      using d k l by blast
    show "length (rows example_frame) = 3"
      by (rule len)
    show "process_excel (\<lambda>_::unit. Inr example_frame) 4300 () = Inr example_output"
      by (rule example_run)
    show "length example_output = 2"
      by (simp add: example_output_def)
  qed
qed

text \<open>
  C2 says that every invoice number is either re-rendered as a number (all decimal
  digits) or passed through unchanged. The code breaks this on the one-character
  text U+00B2: \<^verbatim>\<open>isdigit\<close> accepts the superscript two, so the code calls \<^verbatim>\<open>int\<close> on it,
  which raises ValueError, where the specification passes the text through.
\<close>

theorem convert_invoice_raises_on_superscript:
  "convert_invoice max_digits superscript_two = Inl ValueError \<and>
   document_number_spec superscript_two = [CHR 0xB2]"
  by (simp add: superscript_two_def convert_invoice_def document_number_spec_def strip_def
      isspace_def isdigit_def isdigit_char_def py_int_def isdecimal_char_def)

text \<open>
  C3 says that the conversion of a record with its four required fields never raises. The
  code breaks this: the record below has the four fields and a number as its amount, its
  conversion raises ValueError in the document number, and the sheet that holds it makes
  the whole pipeline fail with that error.
\<close>

theorem transform_raises_on_superscript:
  "has_required superscript_record \<and>
   transform max_digits superscript_record = Inl ValueError \<and>
   surviving superscript_frame = [superscript_record] \<and>
   process_excel (\<lambda>_::unit. Inr superscript_frame) max_digits () = Inl ValueError"
proof (intro conjI)
  show "has_required superscript_record"
    by (simp add: has_required_def superscript_record_def superscript_two_def)
  show "transform max_digits superscript_record = Inl ValueError"
    by (simp add: superscript_record_def superscript_two_def transform_def
        convert_invoice_def strip_def isspace_def isdigit_def isdigit_char_def py_int_def
        isdecimal_char_def)
  show "surviving superscript_frame = [superscript_record]"
    by (simp add: surviving_def raw_records_def raw_record_of_def has_required_def
        superscript_frame_def superscript_record_def superscript_two_def header_def field_def
        cell_at_def)
  show "process_excel (\<lambda>_::unit. Inr superscript_frame) max_digits () = Inl ValueError"
    by (simp add: superscript_frame_def superscript_two_def run_defs)
qed



text \<open>
  C5. For every surviving record, the transaction type is \<^verbatim>\<open>CRD\<close> exactly when the
  amount due is a number below zero, and \<^verbatim>\<open>INV\<close> otherwise; an amount of zero, of
  either sign, gives \<^verbatim>\<open>INV\<close>.
\<close>

theorem transaction_type_rule:
  assumes "read_excel file = Inr df"
    and "process_excel read_excel max_digits file = Inr out"
    and "i < length out"
  shows "transactionType (out ! i) =
           (if amount_negative (amountDue (surviving df ! i)) then ''CRD'' else ''INV'') \<and>
         (amountDue (surviving df ! i) = Num (Finite s 0 e) t \<longrightarrow> transactionType (out ! i) = ''INV'')"
proof -
  from process_excel_nth(2) [OF assms]
  have "transaction_type (amountDue (surviving df ! i)) = Inr (transactionType (out ! i))"
    by (auto simp: transform_Inr)
  from transaction_type_amount [OF this] show ?thesis
    by (auto simp: magnitude_def)
qed

theorem transaction_type_rule_witness:
  "(\<lambda>_::unit. Inr example_frame) () = Inr example_frame \<and>
   process_excel (\<lambda>_::unit. Inr example_frame) 4300 () = Inr example_output \<and>
   (1::nat) < length example_output \<and>
   amount_negative (amountDue (surviving example_frame ! 1)) \<and>
   transactionType (example_output ! 1) = ''CRD'' \<and>
   \<not> amount_negative (amountDue (surviving example_frame ! 0)) \<and>
   transactionType (example_output ! 0) = ''INV''"
  using transaction_type_rule [of "\<lambda>_::unit. Inr example_frame" "()" example_frame 4300 example_output 1]
    transaction_type_rule [of "\<lambda>_::unit. Inr example_frame" "()" example_frame 4300 example_output 0]
  by (simp add: example_run example_surviving magnitude_def) (simp add: example_output_def)

text \<open>
  C6 fails as stated: a record with a blank Amount Due passes the filter and its balance
  is the text \<^verbatim>\<open>nan\<close>, which is no two-decimal number.
\<close>

theorem blank_amount_balance_is_nan:
  "process_excel (\<lambda>_::unit. Inr blank_amount_frame) 4300 () = Inr blank_amount_output \<and>
   has_required (surviving blank_amount_frame ! 0) \<and>
   amountDue (surviving blank_amount_frame ! 0) = NaN \<and>
   documentBalance (blank_amount_output ! 0) = ''nan'' \<and>
   \<not> fixed_two_decimals (documentBalance (blank_amount_output ! 0))"
  by (simp add: blank_amount_run blank_amount_surviving has_required_def)
    (simp add: blank_amount_output_def fixed_two_decimals_def isdecimal_char_def)

text \<open>
  C6, amended. For every surviving record whose Amount Due is a finite number, the balance
  is an optional minus sign, one or more digits, a point and two digits; the minus sign
  stands exactly when the number's sign bit is set; and the digits read as hundredths are
  within half a hundredth of the number's magnitude.
\<close>

theorem document_balance_rule:
  assumes "read_excel upload = Inr df"
    and "process_excel read_excel max_digits upload = Inr out"
    and "i < length out"
    and "amountDue (surviving df ! i) = Num (Finite s m e) t"
  shows "fixed_two_decimals (documentBalance (out ! i)) \<and>
         (hd (documentBalance (out ! i)) = CHR ''-'') = s \<and>
         \<bar>of_nat (digits_value (filter isdecimal_char (documentBalance (out ! i))))
            - 100 * magnitude m e\<bar> \<le> 1 / 2"
proof -
  from process_excel_nth(2) [OF assms(1-3)] assms(4)
  have b: "documentBalance (out ! i) = format_2f (Finite s m e)"
    by (auto simp: transform_Inr)
  show ?thesis
    unfolding b using format_2f_shape format_2f_sign hundredths_bound
    by (simp only: format_2f_digits)
qed

theorem document_balance_rule_witness:
  "process_excel (\<lambda>_::unit. Inr example_frame) 4300 () = Inr example_output \<and>
   (0::nat) < length example_output \<and>
   amountDue (surviving example_frame ! 0) = Num (Finite False 3077752948470579 (- 44)) ''174.95'' \<and>
   documentBalance (example_output ! 0) = ''174.95'' \<and>
   fixed_two_decimals ''174.95'' \<and>
   \<bar>17495 - 100 * magnitude 3077752948470579 (- 44)\<bar> \<le> 1 / 2"
proof -
  have a: "amountDue (surviving example_frame ! 0) = Num (Finite False 3077752948470579 (- 44)) ''174.95''"
    by (simp add: example_surviving)
  have l: "(0::nat) < length example_output" and b: "documentBalance (example_output ! 0) = ''174.95''"
    by (simp_all add: example_output_def)
  have d: "digits_value (filter isdecimal_char ''174.95'') = 17495"
    by (simp add: isdecimal_char_def digits_value_def digit_val_def)
  from document_balance_rule [where read_excel = "\<lambda>_::unit. Inr example_frame" and upload = "()"
      and max_digits = 4300, OF refl example_run l a]
  have "fixed_two_decimals ''174.95'' \<and>
    \<bar>of_nat (digits_value (filter isdecimal_char ''174.95'')) - 100 * magnitude 3077752948470579 (- 44)\<bar> \<le> 1 / 2"
    unfolding b by blast
  then have "fixed_two_decimals ''174.95'' \<and> \<bar>17495 - 100 * magnitude 3077752948470579 (- 44)\<bar> \<le> 1 / 2"
    unfolding d by simp
  with a l b show ?thesis
    using example_run by blast
qed

text \<open>
  C7 says that a date field holding a true calendar date is rendered as \<^verbatim>\<open>YYYY-MM-DD\<close>.
  The code breaks this where the Date column mixes dates and text: the dates of such a
  column are \<^verbatim>\<open>datetime.datetime\<close> objects, line 60 tests for \<^verbatim>\<open>pd.Timestamp\<close> only, and
  line 62 returns their \<^verbatim>\<open>str()\<close> text, which carries the time of day. In the sheet
  below the second record's date, 6 January 2024, comes out as
  \<^verbatim>\<open>2024-01-06 00:00:00\<close> where the specification has \<^verbatim>\<open>2024-01-06\<close>. A Timestamp of the
  year 999 comes out with a three-digit year.
\<close>

theorem convert_date_keeps_time_of_datetime:
  "convert_date (Datetime t s) = s \<and>
   surviving mixed_date_frame = mixed_date_records \<and>
   date (mixed_date_records ! 1) =
     Datetime \<lparr>year = 2024, month = 1, day = 6\<rparr> ''2024-01-06 00:00:00'' \<and>
   process_excel (\<lambda>_::unit. Inr mixed_date_frame) max_digits () = Inr mixed_date_output \<and>
   documentDate (mixed_date_output ! 1) = ''2024-01-06 00:00:00'' \<and>
   document_date_spec (date (mixed_date_records ! 1)) = ''2024-01-06'' \<and>
   convert_date (Timestamp \<lparr>year = 999, month = 2, day = 3\<rparr> s') = ''999-02-03'' \<and>
   document_date_spec (Timestamp \<lparr>year = 999, month = 2, day = 3\<rparr> s') = ''0999-02-03''"
proof (intro conjI)
  show "convert_date (Datetime t s) = s"
    by simp
  show "surviving mixed_date_frame = mixed_date_records"
    by (simp add: surviving_def raw_records_def raw_record_of_def has_required_def
        mixed_date_frame_def mixed_date_records_def header_def field_def cell_at_def)
  show "date (mixed_date_records ! 1) =
     Datetime \<lparr>year = 2024, month = 1, day = 6\<rparr> ''2024-01-06 00:00:00''"
    by (simp add: mixed_date_records_def)
  show "process_excel (\<lambda>_::unit. Inr mixed_date_frame) max_digits () = Inr mixed_date_output"
    by (simp add: mixed_date_frame_def mixed_date_output_def run_defs)
  show "documentDate (mixed_date_output ! 1) = ''2024-01-06 00:00:00''"
    by (simp add: mixed_date_output_def)
  show "document_date_spec (date (mixed_date_records ! 1)) = ''2024-01-06''"
    by (simp add: mixed_date_records_def iso_date_def)
  show "convert_date (Timestamp \<lparr>year = 999, month = 2, day = 3\<rparr> s') = ''999-02-03''"
    by (simp add: strftime_ymd_def zero_pad_def str_nat.simps)
  show "document_date_spec (Timestamp \<lparr>year = 999, month = 2, day = 3\<rparr> s') = ''0999-02-03''"
    by (simp add: iso_date_def)
qed

text \<open>
  C8. When the sheet cannot be read, or lacks one of the five columns the conversion
  reads, nothing is shown but the error, which carries the reader's message or the missing
  labels. Whatever makes the conversion fail, no preview and no CSV are produced.
\<close>

theorem failure_gives_error_only:
  "(read_excel upload = Inl e \<longrightarrow>
      main read_excel max_digits (Some upload) =
        \<lparr>preview = None, download = None, error_shown = Some e\<rparr>) \<and>
   (read_excel upload = Inr df \<and> \<not> set consumed_columns \<subseteq> set (columns df) \<longrightarrow>
      (\<exists>missing. missing \<noteq> [] \<and> set missing \<subseteq> set consumed_columns - set (columns df) \<and>
         main read_excel max_digits (Some upload) =
           \<lparr>preview = None, download = None, error_shown = Some (KeyError missing)\<rparr>)) \<and>
   (process_excel read_excel max_digits upload = Inl e' \<longrightarrow>
      main read_excel max_digits (Some upload) =
        \<lparr>preview = None, download = None, error_shown = Some e'\<rparr>)"
proof (intro conjI impI)
  assume "read_excel upload = Inl e"
  then show "main read_excel max_digits (Some upload) =
        \<lparr>preview = None, download = None, error_shown = Some e\<rparr>"
    by (simp add: main_def process_excel_def)
next
  assume "process_excel read_excel max_digits upload = Inl e'"
  then show "main read_excel max_digits (Some upload) =
        \<lparr>preview = None, download = None, error_shown = Some e'\<rparr>"
    by (simp add: main_def)
next
  assume a: "read_excel upload = Inr df \<and> \<not> set consumed_columns \<subseteq> set (columns df)"
  show "\<exists>missing. missing \<noteq> [] \<and> set missing \<subseteq> set consumed_columns - set (columns df) \<and>
         main read_excel max_digits (Some upload) =
           \<lparr>preview = None, download = None, error_shown = Some (KeyError missing)\<rparr>"
  proof (cases "set required_columns \<subseteq> set (columns df)")
    case False
    let ?missing = "filter (\<lambda>name. name \<notin> set (columns df)) required_columns"
    have "process_excel read_excel max_digits upload = Inl (KeyError ?missing)"
      using a False by (simp add: process_excel_def dropna_absent)
    moreover have "?missing \<noteq> []"
      using False by (auto simp: filter_empty_conv)
    moreover have "set ?missing \<subseteq> set consumed_columns - set (columns df)"
      by (auto simp: consumed_columns_def required_columns_def)
    ultimately show ?thesis
      by (auto simp: main_def)
  next
    case True
    then obtain df' where d: "dropna df required_columns = Inr df'"
      by (auto simp: dropna_Inr)
    then have c: "columns df' = columns df"
      by (simp add: dropna_required)
    from True a have "''Amount Due'' \<notin> set (columns df')" and "''Customer Name'' \<in> set (columns df)"
      and "''Card ID'' \<in> set (columns df)"
      by (auto simp: c consumed_columns_def required_columns_def)
    then have "process_excel read_excel max_digits upload = Inl (KeyError [''Amount Due''])"
      using a by (simp add: process_excel_def d get_column_absent get_column_dropna [OF d])
    moreover have "''Amount Due'' \<notin> set (columns df)"
      using \<open>''Amount Due'' \<notin> set (columns df')\<close> c by simp
    ultimately show ?thesis
      by (auto simp: main_def consumed_columns_def)
  qed
qed

theorem failure_gives_error_only_witness:
  "(\<lambda>_::unit. Inr headless_frame) () = Inr headless_frame \<and>
   \<not> set consumed_columns \<subseteq> set (columns headless_frame) \<and>
   process_excel (\<lambda>_::unit. Inr headless_frame) 4300 () = Inl (KeyError [''Card ID'']) \<and>
   main (\<lambda>_::unit. Inr headless_frame) 4300 (Some ()) =
     \<lparr>preview = None, download = None, error_shown = Some (KeyError [''Card ID''])\<rparr> \<and>
   (\<lambda>_::unit. Inl (ReadError ''File is not a zip file'')) () = Inl (ReadError ''File is not a zip file'') \<and>
   main (\<lambda>_::unit. Inl (ReadError ''File is not a zip file'')) 4300 (Some ()) =
     \<lparr>preview = None, download = None, error_shown = Some (ReadError ''File is not a zip file'')\<rparr>"
  using failure_gives_error_only [where read_excel = "\<lambda>_::unit. Inr headless_frame"
      and upload = "()" and df = headless_frame and max_digits = 4300
      and e' = "KeyError [''Card ID'']"]
    failure_gives_error_only [where read_excel = "\<lambda>_::unit. Inl (ReadError ''File is not a zip file'')"
      and upload = "()" and e = "ReadError ''File is not a zip file''" and max_digits = 4300]
  by (simp add: headless_run) (simp add: headless_frame_def consumed_columns_def)

text \<open>
  C9. The pipeline returns a result exactly when the sheet was read, has the five columns
  the conversion reads, and every record that passes the filter converts; the result is
  then the conversion of those records, one output record for each, in source order.
\<close>

theorem pipeline_maps_transform:
  "process_excel read_excel max_digits file = Inr out \<longleftrightarrow>
     (\<exists>df. read_excel file = Inr df \<and> set consumed_columns \<subseteq> set (columns df) \<and>
        list_all2 (\<lambda>r out_r. transform max_digits r = Inr out_r)
          (filter has_required (raw_records df)) out)"
  using process_excel_Inr [of read_excel max_digits "file" out]
  by (simp add: surviving_def)

theorem pipeline_maps_transform_witness:
  "process_excel (\<lambda>_::unit. Inr example_frame) 4300 () = Inr example_output \<and>
   set consumed_columns \<subseteq> set (columns example_frame) \<and>
   length (filter has_required (raw_records example_frame)) = 2 \<and>
   list_all2 (\<lambda>r out_r. transform 4300 r = Inr out_r)
     (filter has_required (raw_records example_frame)) example_output"
  using pipeline_maps_transform [of "\<lambda>_::unit. Inr example_frame" 4300 "()" example_output]
    example_surviving
  by (simp add: example_run surviving_def)

text \<open>
  C10. A record whose Date, Invoice No., Customer Name and Card ID are present and whose
  Amount Due is blank passes the filter: when the conversion returns, the record has an
  output row, with transaction type \<^verbatim>\<open>INV\<close> and the balance text \<^verbatim>\<open>nan\<close>.
\<close>

theorem blank_amount_survives:
  assumes "read_excel upload = Inr df"
    and "process_excel read_excel max_digits upload = Inr out"
    and "r \<in> set (raw_records df)"
    and "\<not> isna (date r)" and "\<not> isna (invoiceNumber r)"
    and "\<not> isna (customerName r)" and "\<not> isna (cardId r)"
    and "amountDue r = NaN"
  shows "\<exists>i. i < length out \<and> surviving df ! i = r \<and>
           transactionType (out ! i) = ''INV'' \<and> documentBalance (out ! i) = ''nan''"
proof -
  have "r \<in> set (surviving df)"
    using assms(3-7) by (simp add: surviving_def has_required_def)
  then obtain i where i: "i < length (surviving df)" "surviving df ! i = r"
    by (auto simp: in_set_conv_nth)
  with process_excel_nth [OF assms(1,2)]
  have "i < length out" and "transform max_digits r = Inr (out ! i)"
    by auto
  with assms(8) i show ?thesis
    by (auto simp: transform_Inr)
qed

theorem blank_amount_survives_witness:
  "(\<lambda>_::unit. Inr blank_amount_frame) () = Inr blank_amount_frame \<and>
   process_excel (\<lambda>_::unit. Inr blank_amount_frame) 4300 () = Inr blank_amount_output \<and>
   raw_records blank_amount_frame ! 0 \<in> set (raw_records blank_amount_frame) \<and>
   has_required (raw_records blank_amount_frame ! 0) \<and>
   amountDue (raw_records blank_amount_frame ! 0) = NaN \<and>
   (\<exists>i. i < length blank_amount_output \<and>
      surviving blank_amount_frame ! i = raw_records blank_amount_frame ! 0 \<and>
      transactionType (blank_amount_output ! i) = ''INV'' \<and>
      documentBalance (blank_amount_output ! i) = ''nan'')"
proof -
  have r: "raw_records blank_amount_frame ! 0 = surviving blank_amount_frame ! 0"
    by (simp add: blank_amount_surviving)
      (simp add: raw_records_def raw_record_of_def blank_amount_frame_def header_def field_def cell_at_def)
  have m: "raw_records blank_amount_frame ! 0 \<in> set (raw_records blank_amount_frame)"
    by (simp add: raw_records_def blank_amount_frame_def)
  have f: "\<not> isna (date (raw_records blank_amount_frame ! 0))"
    "\<not> isna (invoiceNumber (raw_records blank_amount_frame ! 0))"
    "\<not> isna (customerName (raw_records blank_amount_frame ! 0))"
    "\<not> isna (cardId (raw_records blank_amount_frame ! 0))"
    "amountDue (raw_records blank_amount_frame ! 0) = NaN"
    by (simp_all add: r blank_amount_surviving)
  from blank_amount_survives [where read_excel = "\<lambda>_::unit. Inr blank_amount_frame"
      and upload = "()" and df = blank_amount_frame and max_digits = 4300
      and out = blank_amount_output, OF _ blank_amount_run m f]
  have "\<exists>i. i < length blank_amount_output \<and>
      surviving blank_amount_frame ! i = raw_records blank_amount_frame ! 0 \<and>
      transactionType (blank_amount_output ! i) = ''INV'' \<and>
      documentBalance (blank_amount_output ! i) = ''nan''"
    by simp
  with m f show ?thesis
    by (simp add: blank_amount_run has_required_def)
qed

end
